theory Spec2Isabelle
  imports Complex_Main
begin

section \<open>JavaScript values and strings\<close>

text \<open>
  The front end is TypeScript. Its strings are modelled as \<^typ>\<open>string\<close>, one
  \<^typ>\<open>char\<close> per code unit, which covers the code units below 256 (the degree sign
  of \<open>formatTemperature\<close> is the code unit \<open>0xB0\<close>). JavaScript numbers are doubles;
  the model computes with exact rationals and integers, so it agrees with the code
  wherever the double arithmetic is exact (all integers of magnitude below \<open>2^53\<close>,
  which includes every time value a \<open>Date\<close> can hold), and it has no \<open>Infinity\<close>.

  A field of TypeScript type \<open>any\<close> is filled from a parsed JSON response, so its
  values are the JSON values, plus \<open>undefined\<close> for a field that is absent.
\<close>

datatype any =
    Undefined
  | Null
  | Boolean bool
  | Number rat
  | String string
  | Array "any list"
  | Object "(string \<times> any) list"

text \<open>ToBoolean, as applied by \<open>||\<close>, \<open>!\<close> and \<open>if\<close>.\<close>

fun truthy :: "any \<Rightarrow> bool" where
  "truthy Undefined = False"
| "truthy Null = False"
| "truthy (Boolean b) = b"
| "truthy (Number n) = (n \<noteq> 0)"
| "truthy (String s) = (s \<noteq> [])"
| "truthy (Array xs) = True"
| "truthy (Object kvs) = True"

text \<open>The decimal digits of a non-negative integer, most significant first.\<close>

fun dec_digits :: "nat \<Rightarrow> string" where
  "dec_digits n =
     (if n < 10 then [''0123456789'' ! n]
      else dec_digits (n div 10) @ [''0123456789'' ! (n mod 10)])"

declare dec_digits.simps [simp del]

text \<open>
  Number-to-string conversion of an integer value, as a template literal applies it
  to the result of \<open>Math.floor\<close> (magnitudes below \<open>10^21\<close>, where the conversion
  writes plain decimal digits).
\<close>

definition int_toString :: "int \<Rightarrow> string" where
  "int_toString i = (if i < 0 then ''-'' @ dec_digits (nat (- i)) else dec_digits (nat i))"


text \<open>
  \<open>String.prototype.trim\<close>: white space and line terminators are removed from both
  ends. Of the code units below 256 these are TAB, LF, VT, FF, CR, SPACE and NBSP.
\<close>

definition isWhiteSpace :: "char \<Rightarrow> bool" where
  "isWhiteSpace c =
     (c = CHR 0x09 \<or> c = CHR 0x0A \<or> c = CHR 0x0B \<or> c = CHR 0x0C \<or> c = CHR 0x0D
      \<or> c = CHR 0x20 \<or> c = CHR 0xA0)"

definition trim :: "string \<Rightarrow> string" where
  "trim s = rev (dropWhile isWhiteSpace (rev (dropWhile isWhiteSpace s)))"


section \<open>Domain models (models/chat.model.ts)\<close>

datatype WidgetSize = Small | Medium | Large

datatype WidgetTheme = Light | Dark | Auto

text \<open>
  \<open>WidgetConfig\<close> has an index signature \<open>[key: string]: any\<close>; the keys beyond the
  three declared ones are kept in \<open>extra\<close>.
\<close>

record WidgetConfig =
  size :: WidgetSize
  theme :: WidgetTheme
  refreshInterval :: "rat option"
  extra :: "(string \<times> any) list"

record WidgetAction =
  type :: string
  label :: string
  icon :: "string option"
  description :: "string option"
  extra :: "(string \<times> any) list"

record WidgetMetadata =
  created_at :: string
  updated_at :: string
  source :: string
  version :: string

text \<open>\<open>WidgetType = 'weather' | 'stock' | 'news' | 'clock' | 'custom'\<close>\<close>

datatype WidgetType = Weather | Stock | News | Clock | Custom

record Widget =
  id :: string
  type :: WidgetType
  title :: string
  data :: any
  config :: WidgetConfig
  actions :: "WidgetAction list option"
  metadata :: "WidgetMetadata option"

record ChatSession =
  id :: int
  user_id :: string
  title :: "string option"
  created_at :: string
  updated_at :: string

datatype Role = User | Assistant

record Message =
  id :: int
  session_id :: int
  content :: string
  role :: Role
  widgets :: "Widget list option"
  created_at :: string

record ChatRequest =
  message :: string
  session_id :: "int option"
  user_id :: string

record ChatResponse =
  user_message :: Message
  assistant_message :: Message
  session_id :: int
  widgets :: "Widget list option"


section \<open>Widget service (services/widget.service.ts)\<close>

text \<open>
  \<open>extractWeatherData(widget)\<close> is \<open>widget?.data as WeatherData || null\<close>. The cast
  is erased at run time: the value is the widget's \<open>data\<close> when that is truthy, and
  \<open>null\<close> when the widget is absent or its \<open>data\<close> is falsy. The argument is
  \<open>None\<close> for a \<open>null\<close> or \<open>undefined\<close> widget.
\<close>

definition extractWeatherData :: "Widget option \<Rightarrow> any" where
  "extractWeatherData widget =
     (case widget of
        None \<Rightarrow> Null
      | Some w \<Rightarrow> if truthy (Widget.data w) then Widget.data w else Null)"

definition extractStockData :: "Widget option \<Rightarrow> any" where
  "extractStockData widget =
     (case widget of
        None \<Rightarrow> Null
      | Some w \<Rightarrow> if truthy (Widget.data w) then Widget.data w else Null)"

definition extractNewsData :: "Widget option \<Rightarrow> any" where
  "extractNewsData widget =
     (case widget of
        None \<Rightarrow> Null
      | Some w \<Rightarrow> if truthy (Widget.data w) then Widget.data w else Null)"

definition extractClockData :: "Widget option \<Rightarrow> any" where
  "extractClockData widget =
     (case widget of
        None \<Rightarrow> Null
      | Some w \<Rightarrow> if truthy (Widget.data w) then Widget.data w else Null)"



text \<open>
  \<open>formatRelativeTime(timestamp)\<close> reads the clock (\<open>new Date()\<close>) and parses its
  argument (\<open>new Date(timestamp)\<close>). In the model \<open>now\<close> is the clock's time value in
  milliseconds and \<open>date\<close> is the time value of the parsed timestamp, \<open>None\<close> when
  the string does not parse (an Invalid Date, whose time value is \<open>NaN\<close>: every
  comparison is then false and the last template prints \<open>NaN\<close>).
\<close>

definition formatRelativeTime :: "int \<Rightarrow> int option \<Rightarrow> string" where
  "formatRelativeTime now date =
     (case date of
        None \<Rightarrow> ''NaNd ago''
      | Some d \<Rightarrow>
          (let diffInSeconds = (now - d) div 1000
           in if diffInSeconds < 60 then ''Just now''
              else if diffInSeconds < 3600 then int_toString (diffInSeconds div 60) @ ''m ago''
              else if diffInSeconds < 86400 then int_toString (diffInSeconds div 3600) @ ''h ago''
              else int_toString (diffInSeconds div 86400) @ ''d ago''))"


section \<open>Chat state service (services/chat.service.ts)\<close>

text \<open>
  The service holds two \<open>BehaviorSubject\<close>s; the value of each is a field of the
  state. A method that calls the remote API returns, next to the new state, the
  requests it has issued. The response arrives later as an event of its own: for
  each such method the \<open>tap\<close> callback that runs on a successful response is a
  function on the state (a failed request runs no \<open>tap\<close> and leaves the service
  state as it is).
\<close>

record ChatService =
  currentSessionSubject :: "ChatSession option"
  messagesSubject :: "Message list"

datatype Request =
    PostSession string "string option"
  | GetSessions string
  | GetSession int
  | GetSessionMessages int
  | PostMessage ChatRequest
  | DeleteSession int

definition ChatService_new :: ChatService where
  "ChatService_new = \<lparr>currentSessionSubject = None, messagesSubject = []\<rparr>"

definition createSession_tap :: "ChatSession \<Rightarrow> ChatService \<Rightarrow> ChatService" where
  "createSession_tap session svc = svc\<lparr>currentSessionSubject := Some session\<rparr>"

definition getSession_tap :: "ChatSession \<Rightarrow> ChatService \<Rightarrow> ChatService" where
  "getSession_tap session svc = svc\<lparr>currentSessionSubject := Some session\<rparr>"

definition getSessionMessages_tap :: "Message list \<Rightarrow> ChatService \<Rightarrow> ChatService" where
  "getSessionMessages_tap msgs svc = svc\<lparr>messagesSubject := msgs\<rparr>"

text \<open>
  The \<open>tap\<close> of \<open>sendMessage(request)\<close>, run on the response. \<open>new Date()\<close> is read
  twice; \<open>t_created\<close> and \<open>t_updated\<close> are the ISO strings of the two readings.
\<close>

definition ChatService_sendMessage_tap ::
  "ChatRequest \<Rightarrow> ChatResponse \<Rightarrow> string \<Rightarrow> string \<Rightarrow> ChatService \<Rightarrow> ChatService" where
  "ChatService_sendMessage_tap request response t_created t_updated svc =
     (let svc1 = svc\<lparr>currentSessionSubject := Some
                   \<lparr>ChatSession.id = ChatResponse.session_id response,
                    user_id = ChatRequest.user_id request,
                    title = Some ''Current Chat'',
                    created_at = t_created,
                    updated_at = t_updated\<rparr>\<rparr>;
          currentMessages = messagesSubject svc1;
          updatedMessages = currentMessages @ [user_message response, assistant_message response]
      in svc1\<lparr>messagesSubject := updatedMessages\<rparr>)"

definition ChatService_setCurrentSession ::
  "ChatSession option \<Rightarrow> ChatService \<Rightarrow> ChatService \<times> Request list" where
  "ChatService_setCurrentSession session svc =
     (let svc1 = svc\<lparr>currentSessionSubject := session\<rparr>
      in case session of
           Some s \<Rightarrow> (svc1, [GetSessionMessages (ChatSession.id s)])
         | None \<Rightarrow> (svc1\<lparr>messagesSubject := []\<rparr>, []))"

definition clearCurrentSession :: "ChatService \<Rightarrow> ChatService" where
  "clearCurrentSession svc = svc\<lparr>currentSessionSubject := None, messagesSubject := []\<rparr>"


section \<open>Chat view (components/chat/chat.component.ts)\<close>

text \<open>
  The view holds the service it was given and its own fields. It is modelled between
  \<open>ngOnInit\<close> and \<open>ngOnDestroy\<close>, where it is subscribed to both subjects: every
  value a subject publishes is copied to the view's field at once (\<open>chatUpdates\<close>).
  \<open>snackBar\<close> lists the notices opened so far, oldest first.
\<close>

record ChatComponent =
  chatService :: ChatService
  currentMessage :: string
  isLoading :: bool
  sessions :: "ChatSession list"
  messages :: "Message list"
  currentSession :: "ChatSession option"
  sidebarOpen :: bool
  snackBar :: "string list"

definition chatUpdates :: "ChatService \<Rightarrow> ChatComponent \<Rightarrow> ChatComponent" where
  "chatUpdates svc c =
     c\<lparr>chatService := svc,
       currentSession := currentSessionSubject svc,
       messages := messagesSubject svc\<rparr>"

definition showError :: "string \<Rightarrow> ChatComponent \<Rightarrow> ChatComponent" where
  "showError msg c = c\<lparr>snackBar := snackBar c @ [msg]\<rparr>"

definition showSuccess :: "string \<Rightarrow> ChatComponent \<Rightarrow> ChatComponent" where
  "showSuccess msg c = c\<lparr>snackBar := snackBar c @ [msg]\<rparr>"

text \<open>
  The view's \<open>setCurrentSession\<close> is also called with \<open>this.sessions[0] || null\<close>,
  so its argument may be \<open>null\<close>.
\<close>

definition ChatComponent_setCurrentSession ::
  "ChatSession option \<Rightarrow> ChatComponent \<Rightarrow> ChatComponent \<times> Request list" where
  "ChatComponent_setCurrentSession session c =
     (case ChatService_setCurrentSession session (chatService c) of
        (svc, reqs) \<Rightarrow> (chatUpdates svc c, reqs))"

text \<open>
  \<open>sendMessage()\<close> up to the point where the request is issued. The guard is
  \<open>!this.currentMessage.trim() || this.isLoading\<close>; an empty string is falsy.
\<close>

definition ChatComponent_sendMessage :: "ChatComponent \<Rightarrow> ChatComponent \<times> Request list" where
  "ChatComponent_sendMessage c =
     (if trim (currentMessage c) = [] \<or> isLoading c then (c, [])
      else
        (let message = trim (currentMessage c);
             c1 = c\<lparr>currentMessage := [], isLoading := True\<rparr>;
             request = \<lparr>message = message,
                        session_id = map_option ChatSession.id (currentSession c1),
                        user_id = ''default_user''\<rparr>
         in (c1, [PostMessage request])))"

text \<open>
  The two handlers of that request. On success the service's \<open>tap\<close> runs first and
  publishes to the view, then the view's \<open>next\<close> handler clears the loading flag.
  The \<open>error\<close> handler closes over the constant \<open>message\<close>, the text that
  was sent; it is the argument \<open>saved\<close>.
\<close>

definition ChatComponent_sendMessage_next ::
  "ChatRequest \<Rightarrow> ChatResponse \<Rightarrow> string \<Rightarrow> string \<Rightarrow> ChatComponent \<Rightarrow> ChatComponent" where
  "ChatComponent_sendMessage_next request response t_created t_updated c =
     (let svc = ChatService_sendMessage_tap request response t_created t_updated (chatService c)
      in (chatUpdates svc c)\<lparr>isLoading := False\<rparr>)"

definition ChatComponent_sendMessage_error :: "string \<Rightarrow> ChatComponent \<Rightarrow> ChatComponent" where
  "ChatComponent_sendMessage_error saved c =
     (let c1 = c\<lparr>isLoading := False\<rparr>;
          c2 = showError ''Failed to send message'' c1
      in c2\<lparr>currentMessage := saved\<rparr>)"

text \<open>
  A whole turn whose request fails: \<open>sendMessage()\<close>, then the \<open>error\<close> handler of
  the request it issued.
\<close>

definition sendMessage_failed :: "ChatComponent \<Rightarrow> ChatComponent" where
  "sendMessage_failed c =
     (case ChatComponent_sendMessage c of
        (c1, [PostMessage request]) \<Rightarrow>
          ChatComponent_sendMessage_error (ChatRequest.message request) c1
      | (c1, _) \<Rightarrow> c1)"

text \<open>
  \<open>deleteSession(session, event)\<close>: \<open>confirmed\<close> is the user's answer to the
  confirmation dialog. The handlers run when the response to the delete arrives.
\<close>

definition ChatComponent_deleteSession ::
  "ChatSession \<Rightarrow> bool \<Rightarrow> ChatComponent \<Rightarrow> ChatComponent \<times> Request list" where
  "ChatComponent_deleteSession session confirmed c =
     (if confirmed then (c, [DeleteSession (ChatSession.id session)]) else (c, []))"

definition ChatComponent_deleteSession_next ::
  "ChatSession \<Rightarrow> ChatComponent \<Rightarrow> ChatComponent \<times> Request list" where
  "ChatComponent_deleteSession_next session c =
     (let c1 = c\<lparr>sessions := filter (\<lambda>s. ChatSession.id s \<noteq> ChatSession.id session) (sessions c)\<rparr>
      in if (case currentSession c1 of
               None \<Rightarrow> False
             | Some cur \<Rightarrow> ChatSession.id cur = ChatSession.id session)
         then (case ChatComponent_setCurrentSession
                      (case sessions c1 of [] \<Rightarrow> None | s # _ \<Rightarrow> Some s) c1 of
                 (c2, reqs) \<Rightarrow> (showSuccess ''Chat session deleted'' c2, reqs))
         else (showSuccess ''Chat session deleted'' c1, []))"

definition ChatComponent_deleteSession_error :: "ChatComponent \<Rightarrow> ChatComponent" where
  "ChatComponent_deleteSession_error c = showError ''Failed to delete session'' c"


section \<open>Sample values\<close>

definition example_session :: "int \<Rightarrow> ChatSession" where
  "example_session i =
     \<lparr>ChatSession.id = i, user_id = ''u1'', title = Some ''Trip'',
      created_at = ''2024-01-01T00:00:00.000Z'', updated_at = ''2024-01-01T00:00:00.000Z''\<rparr>"

text \<open>
  A view with two sessions in its list, the first one selected, nothing in flight and
  the text \<open>hi\<close> preceded by one space in the input.
\<close>

definition example_component :: ChatComponent where
  "example_component =
     \<lparr>chatService = \<lparr>currentSessionSubject = Some (example_session 7), messagesSubject = []\<rparr>,
      currentMessage = '' hi'', isLoading = False,
      sessions = [example_session 7, example_session 8], messages = [],
      currentSession = Some (example_session 7), sidebarOpen = True, snackBar = []\<rparr>"

definition example_stock_widget :: Widget where
  "example_stock_widget =
     \<lparr>Widget.id = ''w1'', type = Stock, title = ''ACME'',
      data = Object [(''symbol'', String ''ACME'')],
      config = \<lparr>size = Medium, theme = Auto, refreshInterval = None, extra = []\<rparr>,
      actions = None, metadata = None\<rparr>"


section \<open>Digits, division and trimming\<close>




lemma int_toString_nat: "0 \<le> i \<Longrightarrow> int_toString i = dec_digits (nat i)"
  by (simp add: int_toString_def)


lemma int_div_less_iff:
  fixes a k n :: int
  assumes "0 < k"
  shows "(a div k < n) = (a < n * k)"
proof -
  define q where "q = a div k"
  define r where "r = a mod k"
  have a: "a = q * k + r" by (simp add: q_def r_def)
  have r: "0 \<le> r" "r < k" using assms by (simp_all add: r_def)
  have "(q < n) = (a < n * k)"
  proof
    assume "q < n"
    then have "q + 1 \<le> n" by simp
    then have "(q + 1) * k \<le> n * k" using assms by (intro mult_right_mono) simp_all
    then have "q * k + k \<le> n * k" by (simp add: algebra_simps)
    with a r show "a < n * k" by linarith
  next
    assume "a < n * k"
    with a r have "q * k < n * k" by linarith
    then show "q < n" using assms by (simp add: mult_less_cancel_right)
  qed
  then show ?thesis by (simp add: q_def)
qed

text \<open>
  For a timestamp that is not in the future the seconds, minutes, hours and days that
  \<open>formatRelativeTime\<close> floors one after the other are the floors of the elapsed
  milliseconds.
\<close>

lemma formatRelativeTime_past:
  assumes "date \<le> now"
  shows "formatRelativeTime now (Some date) =
     (if now - date < 60000 then ''Just now''
      else if now - date < 3600000 then dec_digits (nat ((now - date) div 60000)) @ ''m ago''
      else if now - date < 86400000 then dec_digits (nat ((now - date) div 3600000)) @ ''h ago''
      else dec_digits (nat ((now - date) div 86400000)) @ ''d ago'')"
proof -
  let ?e = "now - date"
  have e0: "0 \<le> ?e" using assms by simp
  have m: "?e div 1000 div 60 = ?e div 60000"
    and h: "?e div 1000 div 3600 = ?e div 3600000"
    and d: "?e div 1000 div 86400 = ?e div 86400000"
    by (simp_all add: zdiv_zmult2_eq[symmetric])
  have nn: "0 \<le> ?e div 60000" "0 \<le> ?e div 3600000" "0 \<le> ?e div 86400000"
    using e0 by simp_all
  have b1: "?e div 1000 < 60 \<longleftrightarrow> ?e < 60000"
    and b2: "?e div 1000 < 3600 \<longleftrightarrow> ?e < 3600000"
    and b3: "?e div 1000 < 86400 \<longleftrightarrow> ?e < 86400000"
    by (simp_all add: int_div_less_iff)
  have eq: "formatRelativeTime now (Some date) =
     (if ?e div 1000 < 60 then ''Just now''
      else if ?e div 1000 < 3600 then int_toString (?e div 1000 div 60) @ ''m ago''
      else if ?e div 1000 < 86400 then int_toString (?e div 1000 div 3600) @ ''h ago''
      else int_toString (?e div 1000 div 86400) @ ''d ago'')"
    by (simp only: formatRelativeTime_def Let_def option.case)
  show ?thesis
    unfolding eq m h d b1 b2 b3 int_toString_nat[OF nn(1)] int_toString_nat[OF nn(2)]
      int_toString_nat[OF nn(3)] ..
qed

lemma trim_eq_Nil: "trim s = [] \<longleftrightarrow> (\<forall>ch\<in>set s. isWhiteSpace ch)"
proof -
  have "trim s = [] \<longleftrightarrow> dropWhile isWhiteSpace (rev (dropWhile isWhiteSpace s)) = []"
    by (simp add: trim_def)
  also have "\<dots> \<longleftrightarrow> (\<forall>ch\<in>set (dropWhile isWhiteSpace s). isWhiteSpace ch)"
    by (simp add: dropWhile_eq_Nil_conv)
  also have "\<dots> \<longleftrightarrow> dropWhile isWhiteSpace (dropWhile isWhiteSpace s) = []"
    by (simp only: dropWhile_eq_Nil_conv)
  also have "\<dots> \<longleftrightarrow> dropWhile isWhiteSpace s = []"
    by (simp only: dropWhile_idem)
  also have "\<dots> \<longleftrightarrow> (\<forall>ch\<in>set s. isWhiteSpace ch)"
    by (simp only: dropWhile_eq_Nil_conv)
  finally show ?thesis .
qed

lemma dropWhile_hd_fixed: "xs = [] \<or> \<not> P (hd xs) \<Longrightarrow> dropWhile P xs = xs"
  by (cases xs) auto

lemma trim_fixed:
  assumes "s = [] \<or> (\<not> isWhiteSpace (hd s) \<and> \<not> isWhiteSpace (last s))"
  shows "trim s = s"
proof (cases "s = []")
  case True
  then show ?thesis by (simp add: trim_def)
next
  case False
  with assms have h: "\<not> isWhiteSpace (hd s)" and l: "\<not> isWhiteSpace (last s)" by auto
  have 1: "dropWhile isWhiteSpace s = s" using h by (simp add: dropWhile_hd_fixed)
  have "hd (rev s) = last s" using False by (simp add: hd_rev)
  then have 2: "dropWhile isWhiteSpace (rev s) = rev s" using l by (simp add: dropWhile_hd_fixed)
  show ?thesis by (simp add: trim_def 1 2)
qed

lemma trim_ends:
  "trim s = [] \<or> (\<not> isWhiteSpace (hd (trim s)) \<and> \<not> isWhiteSpace (last (trim s)))"
proof (cases "trim s = []")
  case True
  then show ?thesis by simp
next
  case False
  define t where "t = dropWhile isWhiteSpace s"
  define u where "u = dropWhile isWhiteSpace (rev t)"
  have tr: "trim s = rev u" by (simp add: trim_def t_def u_def)
  have une: "u \<noteq> []" using False tr by simp
  then have hu: "\<not> isWhiteSpace (hd u)" unfolding u_def by (rule hd_dropWhile)
  have "rev t = takeWhile isWhiteSpace (rev t) @ u" by (simp add: u_def)
  then have "last (rev t) = last u" using une by (metis last_appendR)
  moreover have tne: "t \<noteq> []" using une u_def by auto
  ultimately have "last u = hd t" by (simp add: last_rev)
  moreover have "\<not> isWhiteSpace (hd t)" using tne unfolding t_def by (rule hd_dropWhile)
  ultimately have lu: "\<not> isWhiteSpace (last u)" by simp
  have "hd (rev u) = last u" "last (rev u) = hd u" using une by (simp_all add: hd_rev last_rev)
  with hu lu tr show ?thesis by simp
qed

lemma trim_trim: "trim (trim s) = trim s"
  using trim_ends [of s] by (rule trim_fixed)

lemma sendMessage_guarded:
  "trim (currentMessage c) = [] \<or> isLoading c \<Longrightarrow> ChatComponent_sendMessage c = (c, [])"
  by (simp add: ChatComponent_sendMessage_def)

lemma sendMessage_issued:
  "\<not> (trim (currentMessage c) = [] \<or> isLoading c) \<Longrightarrow>
   ChatComponent_sendMessage c =
     (c\<lparr>currentMessage := [], isLoading := True\<rparr>,
      [PostMessage \<lparr>message = trim (currentMessage c),
         session_id = map_option ChatSession.id (currentSession c),
         user_id = ''default_user''\<rparr>])"
  by (simp add: ChatComponent_sendMessage_def Let_def)


section \<open>Widget service: extraction helpers\<close>

text \<open>
  Claim C1, as the specification states it: \<open>extractWeatherData(widget)\<close> returns
  none when the widget's type is not \<open>weather\<close> (and likewise for the stock, news and
  clock helpers). The helpers never read the widget's type: on a widget of type
  \<open>stock\<close> whose data is an object, \<open>extractWeatherData\<close> returns that object.
\<close>

theorem extractWeatherData_type_guard_counterexample:
  "Widget.type example_stock_widget \<noteq> Weather
   \<and> extractWeatherData (Some example_stock_widget) \<noteq> Null"
  by (simp add: example_stock_widget_def extractWeatherData_def)

text \<open>
  Claim C1, amended. Each of the four helpers returns the widget's \<open>data\<close> unchanged
  when that value is truthy, whatever the widget's type, and none when the widget is
  absent or its \<open>data\<close> is falsy; changing only the type of a widget changes no
  helper's result. The dispatch on the type is done by the caller (the widget view's
  \<open>getWidgetData\<close> switch).
\<close>

theorem extract_data_ignores_type:
  "(truthy (Widget.data w) \<longrightarrow>
      extractWeatherData (Some w) = Widget.data w \<and> extractStockData (Some w) = Widget.data w
      \<and> extractNewsData (Some w) = Widget.data w \<and> extractClockData (Some w) = Widget.data w)
   \<and> (\<not> truthy (Widget.data w) \<longrightarrow>
      extractWeatherData (Some w) = Null \<and> extractStockData (Some w) = Null
      \<and> extractNewsData (Some w) = Null \<and> extractClockData (Some w) = Null)
   \<and> extractWeatherData None = Null \<and> extractStockData None = Null
   \<and> extractNewsData None = Null \<and> extractClockData None = Null
   \<and> extractWeatherData (Some (w\<lparr>Widget.type := t\<rparr>)) = extractWeatherData (Some w)
   \<and> extractStockData (Some (w\<lparr>Widget.type := t\<rparr>)) = extractStockData (Some w)
   \<and> extractNewsData (Some (w\<lparr>Widget.type := t\<rparr>)) = extractNewsData (Some w)
   \<and> extractClockData (Some (w\<lparr>Widget.type := t\<rparr>)) = extractClockData (Some w)"
  by (simp add: extractWeatherData_def extractStockData_def extractNewsData_def
      extractClockData_def)

theorem extract_data_ignores_type_witness:
  "truthy (Widget.data example_stock_widget)
   \<and> extractWeatherData (Some example_stock_widget) = Object [(''symbol'', String ''ACME'')]
   \<and> \<not> truthy (Widget.data (example_stock_widget\<lparr>data := String ''''\<rparr>))
   \<and> extractWeatherData (Some (example_stock_widget\<lparr>data := String ''''\<rparr>)) = Null"
  using extract_data_ignores_type [of example_stock_widget Weather]
    extract_data_ignores_type [of "example_stock_widget\<lparr>data := String ''''\<rparr>" Weather]
  by (simp add: example_stock_widget_def)


section \<open>Chat state service: sending and selecting\<close>

text \<open>
  Claim C2. Whatever the message list held before, a successful \<open>sendMessage\<close>
  appends exactly two messages to it, the returned user message and then the returned
  assistant message, and the current session afterwards has the \<open>session_id\<close> of the
  response as its id. The same holds for the copies the chat view keeps.
\<close>

theorem sendMessage_appends_two:
  "messagesSubject (ChatService_sendMessage_tap request response t1 t2 svc)
     = messagesSubject svc @ [user_message response, assistant_message response]
   \<and> length (messagesSubject (ChatService_sendMessage_tap request response t1 t2 svc))
     = length (messagesSubject svc) + 2
   \<and> map_option ChatSession.id (currentSessionSubject
         (ChatService_sendMessage_tap request response t1 t2 svc))
     = Some (ChatResponse.session_id response)
   \<and> messages (ChatComponent_sendMessage_next request response t1 t2 c)
     = messagesSubject (chatService c) @ [user_message response, assistant_message response]
   \<and> map_option ChatSession.id (currentSession
         (ChatComponent_sendMessage_next request response t1 t2 c))
     = Some (ChatResponse.session_id response)"
  by (simp add: ChatService_sendMessage_tap_def ChatComponent_sendMessage_next_def
      chatUpdates_def Let_def)

text \<open>
  Claim C8. After a successful \<open>sendMessage\<close> the current session is a new record:
  its id is the response's \<open>session_id\<close>, its user is the request's, its title is the
  constant \<open>Current Chat\<close> and its two timestamps are the two readings of the
  client's clock. Nothing of the session held before survives: the result is the same
  for every previous current session \<open>prev\<close>.
\<close>

theorem sendMessage_synthesizes_session:
  "currentSessionSubject (ChatService_sendMessage_tap request response t1 t2 svc)
     = Some \<lparr>ChatSession.id = ChatResponse.session_id response,
             user_id = ChatRequest.user_id request,
             title = Some ''Current Chat'',
             created_at = t1, updated_at = t2\<rparr>
   \<and> currentSessionSubject (ChatService_sendMessage_tap request response t1 t2
         (svc\<lparr>currentSessionSubject := prev\<rparr>))
     = currentSessionSubject (ChatService_sendMessage_tap request response t1 t2 svc)"
  by (simp add: ChatService_sendMessage_tap_def Let_def)

text \<open>
  Claim C3. After selecting a session \<open>s\<close> and then selecting none, the message list
  is empty, whether or not the messages fetched for \<open>s\<close> arrived in between.
  Selecting \<open>s\<close> makes it current and issues exactly one fetch of its messages; when
  those arrive they become the message list as they are, with nothing kept of the old
  list. Selecting none clears the current session and the list and issues no request.
\<close>

theorem selectSession_then_none_empty:
  "messagesSubject (fst (ChatService_setCurrentSession None
       (fst (ChatService_setCurrentSession (Some s) svc)))) = []
   \<and> messagesSubject (fst (ChatService_setCurrentSession None
       (getSessionMessages_tap fetched (fst (ChatService_setCurrentSession (Some s) svc))))) = []
   \<and> ChatService_setCurrentSession (Some s) svc
       = (svc\<lparr>currentSessionSubject := Some s\<rparr>, [GetSessionMessages (ChatSession.id s)])
   \<and> messagesSubject (getSessionMessages_tap fetched
         (fst (ChatService_setCurrentSession (Some s) svc))) = fetched
   \<and> currentSessionSubject (getSessionMessages_tap fetched
         (fst (ChatService_setCurrentSession (Some s) svc))) = Some s
   \<and> ChatService_setCurrentSession None svc
       = (svc\<lparr>currentSessionSubject := None, messagesSubject := []\<rparr>, [])"
  by (simp add: ChatService_setCurrentSession_def getSessionMessages_tap_def Let_def)


section \<open>Chat view: deleting and sending\<close>

text \<open>
  Claim C4. When the delete of the currently selected session succeeds, the session
  is filtered out of the view's list and the first remaining session is selected, or
  none if the list is now empty. So the current session afterwards is either none or
  a session of the list with another id; it never has the deleted id, and the
  service holds the same value.
\<close>

theorem deleteSession_current_valid:
  fixes c :: ChatComponent and session :: ChatSession
  defines "c' \<equiv> fst (ChatComponent_deleteSession_next session c)"
  assumes "map_option ChatSession.id (currentSession c) = Some (ChatSession.id session)"
  shows "(currentSession c' = None
          \<or> (\<exists>s\<in>set (sessions c'). currentSession c' = Some s
                \<and> ChatSession.id s \<noteq> ChatSession.id session))
    \<and> map_option ChatSession.id (currentSession c') \<noteq> Some (ChatSession.id session)
    \<and> currentSessionSubject (chatService c') = currentSession c'
    \<and> sessions c' = filter (\<lambda>s. ChatSession.id s \<noteq> ChatSession.id session) (sessions c)
    \<and> currentSession c' = (case sessions c' of [] \<Rightarrow> None | s # _ \<Rightarrow> Some s)"
proof -
  let ?rest = "filter (\<lambda>s. ChatSession.id s \<noteq> ChatSession.id session) (sessions c)"
  from assms(2) obtain cur where cur: "currentSession c = Some cur"
    and same: "ChatSession.id cur = ChatSession.id session" by auto
  show ?thesis
  proof (cases ?rest)
    case Nil
    with cur same show ?thesis
      by (simp add: c'_def ChatComponent_deleteSession_next_def
          ChatComponent_setCurrentSession_def ChatService_setCurrentSession_def
          chatUpdates_def showSuccess_def Let_def)
  next
    case (Cons s rest)
    then have "s \<in> set ?rest" by simp
    then have "ChatSession.id s \<noteq> ChatSession.id session" by simp
    with Cons cur same show ?thesis
      by (simp add: c'_def ChatComponent_deleteSession_next_def
          ChatComponent_setCurrentSession_def ChatService_setCurrentSession_def
          chatUpdates_def showSuccess_def Let_def)
  qed
qed

theorem deleteSession_current_valid_witness:
  "map_option ChatSession.id (currentSession example_component)
     = Some (ChatSession.id (example_session 7))
   \<and> currentSession (fst (ChatComponent_deleteSession_next (example_session 7) example_component))
     = Some (example_session 8)
   \<and> sessions (fst (ChatComponent_deleteSession_next (example_session 7) example_component))
     = [example_session 8]"
proof -
  have h: "map_option ChatSession.id (currentSession example_component)
     = Some (ChatSession.id (example_session 7))"
    by (simp add: example_component_def)
  from deleteSession_current_valid [OF h] h show ?thesis
    by (simp add: example_component_def example_session_def)
qed

text \<open>
  Claim C5, as the specification states it: when the send fails, the composed text is
  restored to the input. The view sends and saves the trimmed text: with \<open>hi\<close> preceded by a space
  composed, the request carries \<open>hi\<close> and after the failure the input holds
  \<open>hi\<close>, not the text that was composed.
\<close>

theorem sendMessage_failure_restores_verbatim_counterexample:
  "snd (ChatComponent_sendMessage example_component)
     = [PostMessage \<lparr>message = ''hi'', session_id = Some 7, user_id = ''default_user''\<rparr>]
   \<and> currentMessage example_component = '' hi''
   \<and> currentMessage (sendMessage_failed example_component) = ''hi''"
  by (simp add: sendMessage_failed_def ChatComponent_sendMessage_def
      ChatComponent_sendMessage_error_def showError_def example_component_def
      example_session_def trim_def isWhiteSpace_def Let_def)

text \<open>
  Claim C5, amended. When a send is issued (the input is not blank and no send is in
  flight), the send path clears the input and the request carries the trimmed text;
  when the request fails, the error handler writes that trimmed text back and clears
  the loading flag. The restored text is the composed text itself whenever that has
  no white space at its ends, and sending it again issues the same request.
\<close>

theorem sendMessage_failure_restores_trimmed:
  assumes "trim (currentMessage c) \<noteq> []" and "\<not> isLoading c"
  shows "currentMessage (fst (ChatComponent_sendMessage c)) = []
    \<and> snd (ChatComponent_sendMessage c)
        = [PostMessage \<lparr>message = trim (currentMessage c),
             session_id = map_option ChatSession.id (currentSession c),
             user_id = ''default_user''\<rparr>]
    \<and> currentMessage (sendMessage_failed c) = trim (currentMessage c)
    \<and> \<not> isLoading (sendMessage_failed c)
    \<and> snd (ChatComponent_sendMessage (sendMessage_failed c)) = snd (ChatComponent_sendMessage c)
    \<and> (trim (currentMessage c) = currentMessage c
         \<longrightarrow> currentMessage (sendMessage_failed c) = currentMessage c)"
  using assms
  by (simp add: sendMessage_failed_def ChatComponent_sendMessage_def
      ChatComponent_sendMessage_error_def showError_def Let_def trim_trim)

theorem sendMessage_failure_restores_trimmed_witness:
  "trim (currentMessage example_component) \<noteq> [] \<and> \<not> isLoading example_component
   \<and> currentMessage (fst (ChatComponent_sendMessage example_component)) = []
   \<and> currentMessage (sendMessage_failed example_component) = ''hi''"
proof -
  have t: "trim (currentMessage example_component) = ''hi''"
    by (simp add: example_component_def trim_def isWhiteSpace_def)
  have l: "\<not> isLoading example_component"
    by (simp add: example_component_def)
  from t have n: "trim (currentMessage example_component) \<noteq> []" by simp
  from sendMessage_failure_restores_trimmed [OF n l] t n l show ?thesis by simp
qed

text \<open>
  Claim C9. The view's \<open>sendMessage\<close> issues no request and changes nothing when the
  input is empty or made of white space only, or while the loading flag is set; these
  are the only cases in which it issues no request. A second call right after a call
  is therefore always without effect: either the first call did nothing, or it set
  the loading flag.
\<close>

theorem sendMessage_noop:
  "((\<forall>ch\<in>set (currentMessage c). isWhiteSpace ch) \<or> isLoading c
      \<longrightarrow> ChatComponent_sendMessage c = (c, []))
   \<and> (snd (ChatComponent_sendMessage c) = []
      \<longleftrightarrow> (\<forall>ch\<in>set (currentMessage c). isWhiteSpace ch) \<or> isLoading c)
   \<and> ChatComponent_sendMessage (fst (ChatComponent_sendMessage c))
      = (fst (ChatComponent_sendMessage c), [])"
proof (cases "trim (currentMessage c) = [] \<or> isLoading c")
  case True
  have g: "(\<forall>ch\<in>set (currentMessage c). isWhiteSpace ch) \<or> isLoading c"
    using True unfolding trim_eq_Nil .
  have 1: "ChatComponent_sendMessage c = (c, [])" using True by (rule sendMessage_guarded)
  from 1 g show ?thesis by simp
next
  case False
  have g: "\<not> ((\<forall>ch\<in>set (currentMessage c). isWhiteSpace ch) \<or> isLoading c)"
    using False unfolding trim_eq_Nil .
  note 1 = sendMessage_issued [OF False]
  have "isLoading (fst (ChatComponent_sendMessage c))" by (simp add: 1)
  then have 2: "ChatComponent_sendMessage (fst (ChatComponent_sendMessage c))
      = (fst (ChatComponent_sendMessage c), [])"
    by (simp add: sendMessage_guarded)
  have 3: "snd (ChatComponent_sendMessage c) \<noteq> []" by (simp add: 1)
  from g 2 3 show ?thesis by blast
qed

theorem sendMessage_noop_witness:
  "currentMessage (example_component\<lparr>currentMessage := ''  ''\<rparr>) = ''  ''
   \<and> isWhiteSpace (CHR '' '')
   \<and> ChatComponent_sendMessage (example_component\<lparr>currentMessage := ''  ''\<rparr>)
       = (example_component\<lparr>currentMessage := ''  ''\<rparr>, [])
   \<and> isLoading (example_component\<lparr>isLoading := True\<rparr>)
   \<and> ChatComponent_sendMessage (example_component\<lparr>isLoading := True\<rparr>)
       = (example_component\<lparr>isLoading := True\<rparr>, [])
   \<and> snd (ChatComponent_sendMessage example_component) \<noteq> []"
  using sendMessage_noop [of "example_component\<lparr>currentMessage := ''  ''\<rparr>"]
    sendMessage_noop [of "example_component\<lparr>isLoading := True\<rparr>"]
    sendMessage_noop [of example_component]
  by (simp add: example_component_def isWhiteSpace_def)


section \<open>Widget service: formatting helpers\<close>

text \<open>
  Claim C6. For a timestamp that is not in the future, \<open>formatRelativeTime\<close> gives
  \<open>Just now\<close> when strictly less than 60 seconds have elapsed, the floored number
  of minutes followed by \<open>m ago\<close> below one hour, the floored number of hours
  followed by \<open>h ago\<close> below 24 hours, and the floored number of days followed by
  \<open>d ago\<close> otherwise. In particular 59 seconds give \<open>Just now\<close>, 61 seconds give
  \<open>1m ago\<close> and 3661 seconds give \<open>1h ago\<close>. Times are in milliseconds.
\<close>

theorem formatRelativeTime_buckets:
  assumes "date \<le> now"
  shows "formatRelativeTime now (Some date) =
     (if now - date < 60 * 1000 then ''Just now''
      else if now - date < 3600 * 1000
        then dec_digits (nat ((now - date) div (60 * 1000))) @ ''m ago''
      else if now - date < 86400 * 1000
        then dec_digits (nat ((now - date) div (3600 * 1000))) @ ''h ago''
      else dec_digits (nat ((now - date) div (86400 * 1000))) @ ''d ago'')
    \<and> formatRelativeTime (date + 59 * 1000) (Some date) = ''Just now''
    \<and> formatRelativeTime (date + 61 * 1000) (Some date) = ''1m ago''
    \<and> formatRelativeTime (date + 3661 * 1000) (Some date) = ''1h ago''"
proof -
  have d1: "dec_digits (Suc 0) = ''1''" by (subst dec_digits.simps) simp
  have general: "formatRelativeTime now (Some date) =
     (if now - date < 60 * 1000 then ''Just now''
      else if now - date < 3600 * 1000
        then dec_digits (nat ((now - date) div (60 * 1000))) @ ''m ago''
      else if now - date < 86400 * 1000
        then dec_digits (nat ((now - date) div (3600 * 1000))) @ ''h ago''
      else dec_digits (nat ((now - date) div (86400 * 1000))) @ ''d ago'')"
    using formatRelativeTime_past [OF assms] by simp
  have s59: "formatRelativeTime (date + 59 * 1000) (Some date) = ''Just now''"
    using formatRelativeTime_past [of date "date + 59 * 1000"] by simp
  have s61: "formatRelativeTime (date + 61 * 1000) (Some date) = ''1m ago''"
    using formatRelativeTime_past [of date "date + 61 * 1000"] by (simp add: d1)
  have s3661: "formatRelativeTime (date + 3661 * 1000) (Some date) = ''1h ago''"
    using formatRelativeTime_past [of date "date + 3661 * 1000"] by (simp add: d1)
  from general s59 s61 s3661 show ?thesis by blast
qed

theorem formatRelativeTime_buckets_witness:
  "(0::int) \<le> 3661000
   \<and> formatRelativeTime 59000 (Some 0) = ''Just now''
   \<and> formatRelativeTime 61000 (Some 0) = ''1m ago''
   \<and> formatRelativeTime 3661000 (Some 0) = ''1h ago''
   \<and> formatRelativeTime 172800000 (Some 0) = ''2d ago''"
proof -
  have d1: "dec_digits (Suc 0) = ''1''" by (subst dec_digits.simps) simp
  have d2: "dec_digits 2 = ''2''" by (subst dec_digits.simps) simp
  show ?thesis
    using formatRelativeTime_buckets [of 0 59000] formatRelativeTime_buckets [of 0 61000]
      formatRelativeTime_buckets [of 0 3661000] formatRelativeTime_buckets [of 0 172800000]
    by (simp add: d1 d2)
qed

text \<open>
  Claim C10. For a timestamp in the future the elapsed difference is negative, so
  its floor in seconds is below 60 and \<open>formatRelativeTime\<close> returns \<open>Just now\<close>.
\<close>

theorem formatRelativeTime_future:
  assumes "now < date"
  shows "formatRelativeTime now (Some date) = ''Just now''"
proof -
  have "(now - date) div 1000 < 0" using assms by (simp add: div_neg_pos_less0)
  then have "(now - date) div 1000 < 60" by simp
  then show ?thesis by (simp add: formatRelativeTime_def Let_def)
qed

theorem formatRelativeTime_future_witness:
  "(0::int) < 86400000 \<and> formatRelativeTime 0 (Some 86400000) = ''Just now''"
  using formatRelativeTime_future [of 0 86400000] by simp


end
